theory Spec2Isabelle
  imports Complex_Main
begin

section \<open>The particle field of liquid-bg.js\<close>

text \<open>
  A shallow embedding of the class \<open>LiquidBackground\<close> of \<^verbatim>\<open>src/liquid-bg.js\<close>.
  JavaScript numbers are modelled as exact reals: sums, products, \<open>Math.sqrt\<close>, \<open>Math.sin\<close>
  and \<open>Math.cos\<close> are the mathematical ones, without rounding, without NaN and without
  infinities. Counts of particles, pixels and pending callbacks are naturals. The pointer
  update, where rounding decides whether the smoothed pointer keeps approaching its target,
  is given a second time with the binary64 rounding of each operation (\<open>mouse_follow64\<close>).

  The fields \<open>x\<close>, \<open>y\<close> and \<open>size\<close> of the source's objects carry a prefix here (\<open>p_\<close> for a
  particle, \<open>m_\<close> for the pointer), since a record field is a constant of the theory.
\<close>

subsection \<open>Data\<close>

record particle =
  p_x :: real
  p_y :: real
  p_baseX :: real
  p_baseY :: real
  p_size :: real
  p_speedX :: real
  p_speedY :: real
  p_color :: "string option"
  p_phase :: real
  p_amplitude :: real

text \<open>\<open>this.mouse\<close>: the smoothed pointer \<open>(x, y)\<close> and the raw target written by the input handlers.\<close>

record mouse =
  m_x :: real
  m_y :: real
  m_targetX :: real
  m_targetY :: real

text \<open>The mount container, as far as the engine reads it: \<open>offsetWidth\<close> and \<open>offsetHeight\<close>.\<close>

record container =
  offsetWidth :: nat
  offsetHeight :: nat

text \<open>
  The engine instance. \<open>scheduled\<close> counts the callbacks handed to \<open>requestAnimationFrame\<close>
  that have not fired yet; the source keeps no such field, the host's frame queue does.
\<close>

record engine =
  particleCount :: nat
  particles :: "particle list"
  mouse :: mouse
  time :: real
  isRunning :: bool
  width :: nat
  height :: nat
  scheduled :: nat

text \<open>What one particle paints in a frame: the centre and the radius of its radial glow.\<close>

record glow =
  g_x :: real
  g_y :: real
  g_radius :: real

datatype js_error = TypeError

subsection \<open>Palette and particle creation\<close>

definition colors :: "string list" where
  "colors =
    [''rgba(139, 92, 246, 0.6)'',
     ''rgba(99, 102, 241, 0.5)'',
     ''rgba(79, 70, 229, 0.4)'',
     ''rgba(124, 58, 237, 0.5)'',
     ''rgba(67, 56, 202, 0.3)'']"

text \<open>
  \<open>this.colors[Math.floor(r * this.colors.length)]\<close>: an index outside the array reads
  \<open>undefined\<close>, which is \<open>None\<close> here.
\<close>

definition pick_color :: "real \<Rightarrow> string option" where
  "pick_color r =
    (let i = \<lfloor>r * real (length colors)\<rfloor>
     in if 0 \<le> i \<and> nat i < length colors then Some (colors ! nat i) else None)"

text \<open>
  Randomness is a supply \<open>rnd\<close>: \<open>rnd k\<close> is the value of the \<open>k\<close>-th call of \<open>Math.random()\<close>
  made during the modelled call. The object literal of \<open>createParticles\<close> draws ten values
  per particle, in the order of its properties.
\<close>

definition new_particle :: "(nat \<Rightarrow> real) \<Rightarrow> nat \<Rightarrow> nat \<Rightarrow> nat \<Rightarrow> particle" where
  "new_particle rnd w h i =
    \<lparr> p_x = rnd (10 * i) * real w,
      p_y = rnd (10 * i + 1) * real h,
      p_baseX = rnd (10 * i + 2) * real w,
      p_baseY = rnd (10 * i + 3) * real h,
      p_size = rnd (10 * i + 4) * 150 + 80,
      p_speedX = (rnd (10 * i + 5) - 0.5) * 0.5,
      p_speedY = (rnd (10 * i + 6) - 0.5) * 0.5,
      p_color = pick_color (rnd (10 * i + 7)),
      p_phase = rnd (10 * i + 8) * pi * 2,
      p_amplitude = rnd (10 * i + 9) * 50 + 30 \<rparr>"

text \<open>The loop \<open>for (let i = 0; i < this.particleCount; i++) this.particles.push(...)\<close>.\<close>

function createParticles_loop ::
  "(nat \<Rightarrow> real) \<Rightarrow> nat \<Rightarrow> nat \<Rightarrow> nat \<Rightarrow> nat \<Rightarrow> particle list \<Rightarrow> particle list" where
  "createParticles_loop rnd n w h i ps =
    (if i < n then createParticles_loop rnd n w h (Suc i) (ps @ [new_particle rnd w h i])
     else ps)"
  by pat_completeness auto
termination
  by (relation "measure (\<lambda>(rnd, n, w, h, i, ps). n - i)") auto

declare createParticles_loop.simps [simp del]

definition createParticles :: "(nat \<Rightarrow> real) \<Rightarrow> engine \<Rightarrow> engine" where
  "createParticles rnd s =
    s\<lparr>particles := createParticles_loop rnd (particleCount s) (width s) (height s) 0 []\<rparr>"

definition resize :: "container \<Rightarrow> engine \<Rightarrow> engine" where
  "resize c s = s\<lparr>width := offsetWidth c, height := offsetHeight c\<rparr>"

subsection \<open>One tick\<close>

definition maxDist :: real where
  "maxDist = 400"

text \<open>\<open>this.mouse.x += (this.mouse.targetX - this.mouse.x) * k\<close>, and the same for \<open>y\<close>;
  \<open>animate\<close> uses \<open>k = 0.05\<close>.\<close>

definition mouse_follow :: "real \<Rightarrow> mouse \<Rightarrow> mouse" where
  "mouse_follow k m =
    m\<lparr>m_x := m_x m + (m_targetX m - m_x m) * k,
      m_y := m_y m + (m_targetY m - m_y m) * k\<rparr>"

text \<open>\<open>const force = (maxDist - dist) / maxDist\<close>, computed inside the test \<open>dist < maxDist\<close>.\<close>

definition force :: "real \<Rightarrow> real" where
  "force d = (maxDist - d) / maxDist"

text \<open>The factor that scales the displacement \<open>(dx, dy) * 0.02\<close> at distance \<open>d\<close>: the source's
  \<open>force\<close> where the test \<open>dist < maxDist\<close> holds, and no displacement elsewhere.\<close>

definition force_magnitude :: "real \<Rightarrow> real" where
  "force_magnitude d = (if d < maxDist then force d else 0)"

text \<open>The block "Mouse interaction": the position after it, from the position before it and
  the smoothed pointer.\<close>

definition mouse_interaction :: "real \<Rightarrow> real \<Rightarrow> real \<times> real \<Rightarrow> real \<times> real" where
  "mouse_interaction mx my pos =
    (let dx = mx - fst pos;
         dy = my - snd pos;
         dist = sqrt (dx * dx + dy * dy)
     in if dist < maxDist
        then (fst pos - dx * force dist * 0.02, snd pos - dy * force dist * 0.02)
        else pos)"

text \<open>The two wrapping statements of one axis (\<open>ext\<close> is the width or the height), in the
  source's order:
  \<open>if (v < -size) v = ext + size; if (v > ext + size) v = -size;\<close>\<close>

definition wrap :: "real \<Rightarrow> real \<Rightarrow> real \<Rightarrow> real" where
  "wrap sz ext v =
    (let v1 = (if v < - sz then ext + sz else v)
     in if v1 > ext + sz then - sz else v1)"

text \<open>The body of the \<open>forEach\<close> callback: the particle as it is left, and the glow painted.
  The colour stops of the gradient are not modelled.\<close>

definition update_particle :: "real \<Rightarrow> mouse \<Rightarrow> nat \<Rightarrow> nat \<Rightarrow> particle \<Rightarrow> particle \<times> glow" where
  "update_particle t m w h p =
    (let x1 = p_x p + p_speedX p;
         y1 = p_y p + p_speedY p;
         oscillateX = sin (t + p_phase p) * p_amplitude p;
         oscillateY = cos (t * 0.8 + p_phase p) * p_amplitude p;
         pos = mouse_interaction (m_x m) (m_y m) (x1, y1);
         x2 = wrap (p_size p) (real w) (fst pos);
         y2 = wrap (p_size p) (real h) (snd pos)
     in (p\<lparr>p_x := x2, p_y := y2\<rparr>,
         \<lparr>g_x = x2 + oscillateX, g_y = y2 + oscillateY, g_radius = p_size p\<rparr>))"

text \<open>\<open>animate\<close>: nothing at all when the engine is not running; otherwise the clock and the
  pointer advance, every particle is updated and painted, and the next frame is requested.
  The result is the engine and the glows painted by this call. The fade fill and the grain
  overlay act on the pixels of the canvas, which the engine object does not hold; \<open>addNoise\<close>
  is modelled below as a function on the pixel buffer it reads and writes back.\<close>

definition animate :: "engine \<Rightarrow> engine \<times> glow list" where
  "animate s =
    (if \<not> isRunning s then (s, [])
     else
       (let t = time s + 0.01;
            m = mouse_follow 0.05 (mouse s);
            res = map (update_particle t m (width s) (height s)) (particles s)
        in (s\<lparr>time := t, mouse := m, particles := map fst res, scheduled := Suc (scheduled s)\<rparr>,
            map snd res)))"

subsection \<open>Events\<close>

text \<open>The notifications of \<open>bindEvents\<close>, and the firing of a requested animation frame.
  \<open>Resize c\<close> is the window's resize event with the container measuring \<open>c\<close> at that moment;
  \<open>VisibilityChange hidden\<close> carries \<open>document.hidden\<close>.\<close>

datatype event =
  MouseMove real real
  | TouchMove "(real \<times> real) list"
  | Resize container
  | VisibilityChange bool
  | AnimationFrame

definition handle :: "(nat \<Rightarrow> real) \<Rightarrow> event \<Rightarrow> engine \<Rightarrow> engine" where
  "handle rnd ev s =
    (case ev of
       MouseMove cx cy \<Rightarrow> s\<lparr>mouse := (mouse s)\<lparr>m_targetX := cx, m_targetY := cy\<rparr>\<rparr>
     | TouchMove touches \<Rightarrow>
         (case touches of
            [] \<Rightarrow> s
          | t # _ \<Rightarrow> s\<lparr>mouse := (mouse s)\<lparr>m_targetX := fst t, m_targetY := snd t\<rparr>\<rparr>)
     | Resize c \<Rightarrow> createParticles rnd (resize c s)
     | VisibilityChange hidden \<Rightarrow>
         (let s1 = s\<lparr>isRunning := \<not> hidden\<rparr>
          in if isRunning s1 then fst (animate s1) else s1)
     | AnimationFrame \<Rightarrow>
         (if scheduled s = 0 then s
          else fst (animate (s\<lparr>scheduled := scheduled s - 1\<rparr>))))"

text \<open>A sequence of notifications, each with the random supply of its handler.\<close>

fun run :: "((nat \<Rightarrow> real) \<times> event) list \<Rightarrow> engine \<Rightarrow> engine" where
  "run [] s = s"
| "run (re # evs) s = run evs (handle (fst re) (snd re) s)"

text \<open>\<open>n\<close> consecutive calls of \<open>animate\<close>, the painting dropped.\<close>

definition ticks :: "nat \<Rightarrow> engine \<Rightarrow> engine" where
  "ticks n s = ((\<lambda>e. fst (animate e)) ^^ n) s"

subsection \<open>Construction\<close>

text \<open>The constructor: with a null container, \<open>this.container.appendChild\<close> throws a
  TypeError; otherwise \<open>init\<close>, \<open>bindEvents\<close> and the first call of \<open>animate\<close>.\<close>

definition construct :: "(nat \<Rightarrow> real) \<Rightarrow> container option \<Rightarrow> js_error + engine" where
  "construct rnd co =
    (case co of
       None \<Rightarrow> Inl TypeError
     | Some c \<Rightarrow>
         (let s0 = \<lparr> particleCount = 80, particles = [],
                     mouse = \<lparr>m_x = 0, m_y = 0, m_targetX = 0, m_targetY = 0\<rparr>,
                     time = 0, isRunning = True, width = 0, height = 0, scheduled = 0 \<rparr>
          in Inr (fst (animate (createParticles rnd (resize c s0))))))"

text \<open>The \<open>DOMContentLoaded\<close> listener; its argument is what
  \<open>document.querySelector('.hero-bg')\<close> returns.\<close>

definition domContentLoaded :: "(nat \<Rightarrow> real) \<Rightarrow> container option \<Rightarrow> js_error + engine option" where
  "domContentLoaded rnd bgContainer =
    (case bgContainer of
       None \<Rightarrow> Inr None
     | Some c \<Rightarrow>
         (case construct rnd (Some c) of
            Inl e \<Rightarrow> Inl e
          | Inr s \<Rightarrow> Inr (Some s)))"

subsection \<open>Grain overlay\<close>

text \<open>Storing a number into a \<open>Uint8ClampedArray\<close>: clamped to \<open>[0, 255]\<close> and rounded to the
  nearest integer, a tie going to the even one.\<close>

definition to_uint8_clamped :: "real \<Rightarrow> int" where
  "to_uint8_clamped v =
    (if v \<le> 0 then 0
     else if 255 \<le> v then 255
     else
       (let f = \<lfloor>v\<rfloor>
        in if v - real_of_int f < 1 / 2 then f
           else if 1 / 2 < v - real_of_int f then f + 1
           else if even f then f else f + 1))"

text \<open>\<open>data[j] = Math.max(0, Math.min(255, data[j] + noise))\<close>; a write beyond the end of a
  typed array is ignored.\<close>

definition set_channel :: "nat \<Rightarrow> real \<Rightarrow> int list \<Rightarrow> int list" where
  "set_channel j noise data =
    (if j < length data
     then data[j := to_uint8_clamped (max 0 (min 255 (real_of_int (data ! j) + noise)))]
     else data)"

text \<open>The loop \<open>for (let i = 0; i < data.length; i += 16)\<close>; \<open>k\<close> counts the iterations, one
  call of \<open>Math.random()\<close> each.\<close>

function addNoise_loop :: "(nat \<Rightarrow> real) \<Rightarrow> nat \<Rightarrow> nat \<Rightarrow> int list \<Rightarrow> int list" where
  "addNoise_loop rnd k i data =
    (if i < length data
     then
       (let noise = (rnd k - 0.5) * 8
        in addNoise_loop rnd (Suc k) (i + 16)
             (set_channel (i + 2) noise (set_channel (i + 1) noise (set_channel i noise data))))
     else data)"
  by pat_completeness auto
termination
proof (relation "measure (\<lambda>(rnd, k, i, data). length data - i)")
  show "wf (measure (\<lambda>(rnd, k, i, data). length data - i))"
    by simp
next
  fix rnd :: "nat \<Rightarrow> real" and k i :: nat and data :: "int list" and noise :: real
  assume "i < length data"
  moreover have "length (set_channel j v d) = length d" for j v d
    by (simp add: set_channel_def)
  ultimately show "((rnd, Suc k, i + 16,
        set_channel (i + 2) noise (set_channel (i + 1) noise (set_channel i noise data))),
      (rnd, k, i, data)) \<in> measure (\<lambda>(rnd, k, i, data). length data - i)"
    by simp
qed

declare addNoise_loop.simps [simp del]

definition addNoise :: "(nat \<Rightarrow> real) \<Rightarrow> int list \<Rightarrow> int list" where
  "addNoise rnd data = addNoise_loop rnd 0 0 data"

subsection \<open>The pointer update in binary64\<close>

text \<open>Rounding to the nearest integer, a tie going to the even one.\<close>

definition round_half_even :: "real \<Rightarrow> int" where
  "round_half_even v =
    (let f = \<lfloor>v\<rfloor>
     in if v - real_of_int f < 1 / 2 then f
        else if 1 / 2 < v - real_of_int f then f + 1
        else if even f then f else f + 1)"

text \<open>The binary64 number nearest to a real, a tie going to the even significand: a
  significand of 53 bits for a magnitude of at least \<open>2 powr - 1022\<close>, the fixed spacing
  \<open>2 powr - 1074\<close> below that. Overflow to an infinity is not modelled: a real beyond the
  largest binary64 number is rounded on the grid of its own exponent.\<close>

definition binary64 :: "real \<Rightarrow> real" where
  "binary64 v =
    (if v = 0 then 0
     else
       (let e = max \<lfloor>log 2 \<bar>v\<bar>\<rfloor> (- 1022);
            u = 2 powr (real_of_int e - 52)
        in u * real_of_int (round_half_even (v / u))))"

text \<open>\<open>this.mouse.x += (this.mouse.targetX - this.mouse.x) * 0.05\<close> and the same for \<open>y\<close>, as
  the source computes them on binary64 fields: the literal, the difference, the product and
  the sum are each rounded.\<close>

definition mouse_follow64 :: "mouse \<Rightarrow> mouse" where
  "mouse_follow64 m =
    m\<lparr>m_x := binary64 (m_x m + binary64 (binary64 (m_targetX m - m_x m) * binary64 0.05)),
      m_y := binary64 (m_y m + binary64 (binary64 (m_targetY m - m_y m) * binary64 0.05))\<rparr>"

subsection \<open>Sample states\<close>

text \<open>An engine as the constructor leaves its scalar fields, around a given pointer state,
  particle list and viewport.\<close>

definition sample_engine :: "mouse \<Rightarrow> particle list \<Rightarrow> nat \<Rightarrow> nat \<Rightarrow> engine" where
  "sample_engine m ps w h =
    \<lparr> particleCount = length ps, particles = ps, mouse = m, time = 0, isRunning = True,
      width = w, height = h, scheduled = 0 \<rparr>"

definition sample_particle :: "real \<Rightarrow> real \<Rightarrow> real \<Rightarrow> real \<Rightarrow> particle" where
  "sample_particle px py sz amp =
    \<lparr> p_x = px, p_y = py, p_baseX = 0, p_baseY = 0, p_size = sz, p_speedX = 0, p_speedY = 0,
      p_color = Some ''rgba(139, 92, 246, 0.6)'', p_phase = 0, p_amplitude = amp \<rparr>"

definition sample_supply :: "nat \<Rightarrow> real" where
  "sample_supply k = 1 / 2"

subsection \<open>Notifications that neither recreate nor resume\<close>


section \<open>Properties\<close>

subsection \<open>The pointer force\<close>

lemma mouse_interaction_force_magnitude:
  "mouse_interaction mx my (px, py) =
    (let dx = mx - px; dy = my - py; dist = sqrt (dx * dx + dy * dy)
     in (px - dx * force_magnitude dist * 0.02, py - dy * force_magnitude dist * 0.02))"
  by (simp add: mouse_interaction_def force_magnitude_def Let_def)

text \<open>
  Claim C4. The force applied at distance \<open>d\<close> from the smoothed pointer is zero from
  \<open>maxDist = 400\<close> on; below it, it is \<open>(400 - d) / 400\<close>, strictly positive, strictly
  larger at a smaller distance, and \<open>1\<close> at distance \<open>0\<close>. The last conjunct says that this
  factor is the one the mouse-interaction block of \<open>animate\<close> applies.
\<close>

theorem pointer_force_profile:
  "(maxDist \<le> d \<longrightarrow> force_magnitude d = 0)
   \<and> (d < maxDist \<longrightarrow> force_magnitude d = (400 - d) / 400 \<and> 0 < force_magnitude d)
   \<and> (d < d' \<and> d < maxDist \<longrightarrow> force_magnitude d' < force_magnitude d)
   \<and> force_magnitude 0 = 1
   \<and> maxDist = 400
   \<and> mouse_interaction mx my (px, py) =
       (let dx = mx - px; dy = my - py; dist = sqrt (dx * dx + dy * dy)
        in (px - dx * force_magnitude dist * 0.02, py - dy * force_magnitude dist * 0.02))"
proof -
  have far: "maxDist \<le> d \<longrightarrow> force_magnitude d = 0"
    by (simp add: force_magnitude_def)
  have near: "d < maxDist \<longrightarrow> force_magnitude d = (400 - d) / 400 \<and> 0 < force_magnitude d"
    by (simp add: force_magnitude_def force_def maxDist_def)
  have mono: "d < d' \<and> d < maxDist \<longrightarrow> force_magnitude d' < force_magnitude d"
    by (simp add: force_magnitude_def force_def maxDist_def divide_strict_right_mono)
  have one: "force_magnitude 0 = 1"
    by (simp add: force_magnitude_def force_def maxDist_def)
  show ?thesis
    using far near mono one mouse_interaction_force_magnitude [of mx my px py]
    by (simp add: maxDist_def)
qed

theorem pointer_force_profile_witness:
  "maxDist \<le> 400 \<and> (100::real) < maxDist \<and> (100::real) < 200
   \<and> force_magnitude 400 = 0 \<and> force_magnitude 100 = 3 / 4
   \<and> force_magnitude 200 < force_magnitude 100"
proof -
  have "maxDist \<le> 400" and "(100::real) < maxDist" and "(100::real) < 200"
    by (simp_all add: maxDist_def)
  then show ?thesis
    using pointer_force_profile [where d = 400] pointer_force_profile [where d = 100 and d' = 200]
    by auto
qed

subsection \<open>Pointer smoothing\<close>

lemma funpow_mouse_follow_target:
  "m_targetX ((mouse_follow k ^^ n) m) = m_targetX m
   \<and> m_targetY ((mouse_follow k ^^ n) m) = m_targetY m"
  by (induction n) (simp_all add: mouse_follow_def)

text \<open>After \<open>n\<close> updates the gap to the target is the initial gap times \<open>(1 - k) ^ n\<close>.\<close>

lemma funpow_mouse_follow_gap:
  "m_targetX m - m_x ((mouse_follow k ^^ n) m) = (m_targetX m - m_x m) * (1 - k) ^ n
   \<and> m_targetY m - m_y ((mouse_follow k ^^ n) m) = (m_targetY m - m_y m) * (1 - k) ^ n"
proof (induction n)
  case 0
  show ?case by simp
next
  case (Suc n)
  let ?m = "(mouse_follow k ^^ n) m"
  have tx: "m_targetX ?m = m_targetX m" and ty: "m_targetY ?m = m_targetY m"
    using funpow_mouse_follow_target [where k = k and n = n and m = m] by simp_all
  have "m_targetX m - m_x (mouse_follow k ?m) = (m_targetX m - m_x ?m) * (1 - k)"
    by (simp add: mouse_follow_def tx algebra_simps)
  moreover have "m_targetY m - m_y (mouse_follow k ?m) = (m_targetY m - m_y ?m) * (1 - k)"
    by (simp add: mouse_follow_def ty algebra_simps)
  ultimately show ?case using Suc by simp
qed

text \<open>
  Claim C5. For a smoothing constant \<open>0 < k < 1\<close> and a raw target that no input event
  moves, \<open>n\<close> updates \<open>smoothed += (raw - smoothed) * k\<close> leave the target as it is, keep the
  sign of \<open>raw - smoothed\<close> on each axis (the smoothed pointer never passes the target), and
  a smoothed coordinate that differs from its target at the start differs from it after
  every finite number of updates.
\<close>

theorem mouse_follow_never_overshoots:
  assumes "0 < k" and "k < 1"
  shows "m_targetX ((mouse_follow k ^^ n) m) = m_targetX m
    \<and> m_targetY ((mouse_follow k ^^ n) m) = m_targetY m
    \<and> sgn (m_targetX m - m_x ((mouse_follow k ^^ n) m)) = sgn (m_targetX m - m_x m)
    \<and> sgn (m_targetY m - m_y ((mouse_follow k ^^ n) m)) = sgn (m_targetY m - m_y m)
    \<and> (m_x m \<noteq> m_targetX m \<longrightarrow> m_x ((mouse_follow k ^^ n) m) \<noteq> m_targetX m)
    \<and> (m_y m \<noteq> m_targetY m \<longrightarrow> m_y ((mouse_follow k ^^ n) m) \<noteq> m_targetY m)"
proof -
  have pos: "0 < (1 - k) ^ n" using assms by simp
  then have one: "sgn ((1 - k) ^ n) = 1" by (rule sgn_pos)
  have "1 - k \<noteq> 0" using assms by simp
  then have nz: "(1 - k) ^ n \<noteq> 0" by simp
  have gx: "m_targetX m - m_x ((mouse_follow k ^^ n) m) = (m_targetX m - m_x m) * (1 - k) ^ n"
    and gy: "m_targetY m - m_y ((mouse_follow k ^^ n) m) = (m_targetY m - m_y m) * (1 - k) ^ n"
    using funpow_mouse_follow_gap [where k = k and n = n and m = m] by simp_all
  have sx: "sgn (m_targetX m - m_x ((mouse_follow k ^^ n) m)) = sgn (m_targetX m - m_x m)"
    by (simp only: gx sgn_mult one mult_1_right)
  have sy: "sgn (m_targetY m - m_y ((mouse_follow k ^^ n) m)) = sgn (m_targetY m - m_y m)"
    by (simp only: gy sgn_mult one mult_1_right)
  have nx: "m_x m \<noteq> m_targetX m \<longrightarrow> m_x ((mouse_follow k ^^ n) m) \<noteq> m_targetX m"
  proof
    assume ne: "m_x m \<noteq> m_targetX m"
    have "(m_targetX m - m_x m) * (1 - k) ^ n \<noteq> 0" using ne nz by simp
    then show "m_x ((mouse_follow k ^^ n) m) \<noteq> m_targetX m" using gx by auto
  qed
  have ny: "m_y m \<noteq> m_targetY m \<longrightarrow> m_y ((mouse_follow k ^^ n) m) \<noteq> m_targetY m"
  proof
    assume ne: "m_y m \<noteq> m_targetY m"
    have "(m_targetY m - m_y m) * (1 - k) ^ n \<noteq> 0" using ne nz by simp
    then show "m_y ((mouse_follow k ^^ n) m) \<noteq> m_targetY m" using gy by auto
  qed
  show ?thesis
    using funpow_mouse_follow_target [where k = k and n = n and m = m] sx sy nx ny by simp
qed

theorem mouse_follow_never_overshoots_witness:
  "(0::real) < 1 / 20 \<and> (1::real) / 20 < 1
   \<and> m_x \<lparr>m_x = 0, m_y = 0, m_targetX = 1000, m_targetY = 1000\<rparr>
       \<noteq> m_targetX \<lparr>m_x = 0, m_y = 0, m_targetX = 1000, m_targetY = 1000\<rparr>
   \<and> m_x ((mouse_follow (1 / 20) ^^ 2) \<lparr>m_x = 0, m_y = 0, m_targetX = 1000, m_targetY = 1000\<rparr>) \<noteq> 1000
   \<and> sgn (1000 - m_x ((mouse_follow (1 / 20) ^^ 2) \<lparr>m_x = 0, m_y = 0, m_targetX = 1000, m_targetY = 1000\<rparr>)) = 1"
proof -
  have k: "(0::real) < 1 / 20" "(1::real) / 20 < 1" by simp_all
  show ?thesis
    using mouse_follow_never_overshoots [OF k, where n = 2
        and m = "\<lparr>m_x = 0, m_y = 0, m_targetX = 1000, m_targetY = 1000\<rparr>"]
    by simp
qed

subsection \<open>Ticks\<close>


lemma animate_running_fields:
  assumes "isRunning s"
  shows "isRunning (fst (animate s))"
    and "mouse (fst (animate s)) = mouse_follow 0.05 (mouse s)"
    and "time (fst (animate s)) = time s + 0.01"
    and "width (fst (animate s)) = width s"
    and "height (fst (animate s)) = height s"
    and "particleCount (fst (animate s)) = particleCount s"
    and "scheduled (fst (animate s)) = Suc (scheduled s)"
  using assms by (simp_all add: animate_def Let_def)

lemma ticks_Suc: "ticks (Suc n) s = fst (animate (ticks n s))"
  by (simp add: ticks_def)

lemma ticks_isRunning: "isRunning s \<Longrightarrow> isRunning (ticks n s)"
  by (induction n) (simp_all add: ticks_Suc animate_running_fields(1), simp add: ticks_def)

lemma ticks_mouse: "isRunning s \<Longrightarrow> mouse (ticks n s) = (mouse_follow 0.05 ^^ n) (mouse s)"
proof (induction n)
  case 0
  show ?case by (simp add: ticks_def)
next
  case (Suc n)
  then show ?case
    by (simp add: ticks_Suc animate_running_fields(2) ticks_isRunning)
qed

lemma ticks_gap:
  assumes "isRunning s"
  shows "m_targetX (mouse s) - m_x (mouse (ticks n s)) = (m_targetX (mouse s) - m_x (mouse s)) * (19 / 20) ^ n"
    and "m_targetY (mouse s) - m_y (mouse (ticks n s)) = (m_targetY (mouse s) - m_y (mouse s)) * (19 / 20) ^ n"
  using funpow_mouse_follow_gap [where m = "mouse s" and k = "0.05" and n = n] ticks_mouse [OF assms, of n]
  by simp_all

lemma decay_200: "(1 / 10 ^ 6 :: real) \<le> (19 / 20) ^ 200"
  by (simp add: power_divide)

lemma decay_270: "(19 / 20 :: real) ^ 270 < 1 / 10 ^ 6"
  by (simp add: power_divide)

lemma decay_le_200: "n \<le> 200 \<Longrightarrow> (1 / 10 ^ 6 :: real) \<le> (19 / 20) ^ n"
proof -
  assume "n \<le> 200"
  then have "(19 / 20 :: real) ^ 200 \<le> (19 / 20) ^ n"
    by (intro power_decreasing) simp_all
  then show ?thesis using decay_200 by linarith
qed

lemma decay_ge_270: "270 \<le> n \<Longrightarrow> (19 / 20 :: real) ^ n < 1 / 10 ^ 6"
proof -
  assume "270 \<le> n"
  then have "(19 / 20 :: real) ^ n \<le> (19 / 20) ^ 270"
    by (intro power_decreasing) simp_all
  then show ?thesis using decay_270 by linarith
qed

lemma gap_decay:
  fixes g :: real
  assumes "g \<noteq> 0"
  shows "\<bar>g * (19 / 20) ^ Suc n\<bar> < \<bar>g * (19 / 20) ^ n\<bar>"
    and "270 \<le> n \<Longrightarrow> \<bar>g * (19 / 20) ^ n\<bar> < \<bar>g\<bar> / 10 ^ 6"
proof -
  have pos: "0 < \<bar>g\<bar>" using assms by simp
  have p: "(0::real) < (19 / 20) ^ n" by simp
  have "\<bar>g * (19 / 20) ^ Suc n\<bar> = \<bar>g\<bar> * (19 / 20) ^ n * (19 / 20)"
    by (simp add: abs_mult)
  also have "\<dots> < \<bar>g\<bar> * (19 / 20) ^ n * 1"
    using pos p by (intro mult_strict_left_mono) simp_all
  finally show "\<bar>g * (19 / 20) ^ Suc n\<bar> < \<bar>g * (19 / 20) ^ n\<bar>"
    by (simp add: abs_mult)
  assume "270 \<le> n"
  then have "(19 / 20 :: real) ^ n < 1 / 10 ^ 6" by (rule decay_ge_270)
  then have "\<bar>g\<bar> * (19 / 20) ^ n < \<bar>g\<bar> * (1 / 10 ^ 6)"
    using pos by (intro mult_strict_left_mono)
  then show "\<bar>g * (19 / 20) ^ n\<bar> < \<bar>g\<bar> / 10 ^ 6"
    by (simp add: abs_mult)
qed

text \<open>
  In binary64 the update has fixed points off the target. With the target at \<open>1000\<close> and the
  smoothed pointer ten units in the last place below it, the difference is exact, its
  product with the binary64 literal \<open>0.05\<close> rounds to half a unit in the last place, and the
  sum is a tie that rounds back to the even significand it started from.
\<close>

lemma binary64_zero: "binary64 0 = 0"
  by (simp add: binary64_def)

lemma binary64_normal:
  assumes lo: "2 powr real_of_int e \<le> \<bar>v\<bar>"
    and hi: "\<bar>v\<bar> < 2 powr (real_of_int e + 1)"
    and e: "- 1022 \<le> e"
  shows "binary64 v =
    2 powr (real_of_int e - 52) * real_of_int (round_half_even (v / 2 powr (real_of_int e - 52)))"
proof -
  have "0 < (2::real) powr real_of_int e" by simp
  then have pos: "0 < \<bar>v\<bar>" using lo by linarith
  then have nz: "v \<noteq> 0" by auto
  have fl: "\<lfloor>log 2 \<bar>v\<bar>\<rfloor> = e"
    using floor_log_eq_powr_iff [of "\<bar>v\<bar>" 2 e] pos lo hi by simp
  have mx: "max e (- 1022) = e" using e by simp
  show ?thesis
    unfolding binary64_def Let_def fl mx using nz by simp
qed

lemma binary64_of_0_05: "binary64 0.05 = 3602879701896397 / 2 ^ 56"
proof -
  have r: "round_half_even ((5 / 100) / 2 powr (real_of_int (- 5) - 52)) = 7205759403792794"
    by (simp add: round_half_even_def Let_def powr_neg_numeral)
  have "binary64 (5 / 100) =
      2 powr (real_of_int (- 5) - 52) * real_of_int (round_half_even ((5 / 100) / 2 powr (real_of_int (- 5) - 52)))"
    by (rule binary64_normal) (simp_all add: powr_neg_numeral)
  then show ?thesis unfolding r by (simp add: powr_neg_numeral)
qed

lemma binary64_gap: "binary64 (10 / 2 ^ 43) = 10 / 2 ^ 43"
proof -
  have r: "round_half_even ((10 / 2 ^ 43) / 2 powr (real_of_int (- 40) - 52)) = 5629499534213120"
    by (simp add: round_half_even_def Let_def powr_neg_numeral)
  have "binary64 (10 / 2 ^ 43) =
      2 powr (real_of_int (- 40) - 52) * real_of_int (round_half_even ((10 / 2 ^ 43) / 2 powr (real_of_int (- 40) - 52)))"
    by (rule binary64_normal) (simp_all add: powr_neg_numeral)
  then show ?thesis unfolding r by (simp add: powr_neg_numeral)
qed

lemma binary64_product:
  "binary64 (10 / 2 ^ 43 * (3602879701896397 / 2 ^ 56)) = 1 / 2 ^ 44"
proof -
  let ?v = "10 / 2 ^ 43 * (3602879701896397 / 2 ^ 56) :: real"
  have r: "round_half_even (?v / 2 powr (real_of_int (- 44) - 52)) = 4503599627370496"
    by (simp add: round_half_even_def Let_def powr_neg_numeral)
  have "binary64 ?v =
      2 powr (real_of_int (- 44) - 52) * real_of_int (round_half_even (?v / 2 powr (real_of_int (- 44) - 52)))"
    by (rule binary64_normal) (simp_all add: powr_neg_numeral)
  then show ?thesis unfolding r by (simp add: powr_neg_numeral)
qed

lemma binary64_sum:
  "binary64 (1000 - 10 / 2 ^ 43 + 1 / 2 ^ 44) = 1000 - 10 / 2 ^ 43"
proof -
  let ?v = "1000 - 10 / 2 ^ 43 + 1 / 2 ^ 44 :: real"
  have r: "round_half_even (?v / 2 powr (real_of_int 9 - 52)) = 8796093022207990"
    by (simp add: round_half_even_def Let_def powr_neg_numeral)
  have "binary64 ?v =
      2 powr (real_of_int 9 - 52) * real_of_int (round_half_even (?v / 2 powr (real_of_int 9 - 52)))"
    by (rule binary64_normal) (simp_all add: powr_neg_numeral)
  then show ?thesis unfolding r by (simp add: powr_neg_numeral)
qed

lemma binary64_stalled_value: "binary64 (1000 - 10 / 2 ^ 43) = 1000 - 10 / 2 ^ 43"
proof -
  let ?v = "1000 - 10 / 2 ^ 43 :: real"
  have r: "round_half_even (?v / 2 powr (real_of_int 9 - 52)) = 8796093022207990"
    by (simp add: round_half_even_def Let_def powr_neg_numeral)
  have "binary64 ?v =
      2 powr (real_of_int 9 - 52) * real_of_int (round_half_even (?v / 2 powr (real_of_int 9 - 52)))"
    by (rule binary64_normal) (simp_all add: powr_neg_numeral)
  then show ?thesis unfolding r by (simp add: powr_neg_numeral)
qed

lemma mouse_follow64_stalls:
  "mouse_follow64 \<lparr>m_x = 1000 - 10 / 2 ^ 43, m_y = 0, m_targetX = 1000, m_targetY = 0\<rparr>
    = \<lparr>m_x = 1000 - 10 / 2 ^ 43, m_y = 0, m_targetX = 1000, m_targetY = 0\<rparr>"
proof -
  have g: "(1000::real) - (1000 - 10 / 2 ^ 43) = 10 / 2 ^ 43" by simp
  show ?thesis
    unfolding mouse_follow64_def
    by (simp only: mouse.simps g binary64_gap binary64_of_0_05 binary64_product binary64_sum
        diff_self binary64_zero mult_zero_left add_0_left)
qed

lemma mouse_follow64_stalls_funpow:
  "(mouse_follow64 ^^ n) \<lparr>m_x = 1000 - 10 / 2 ^ 43, m_y = 0, m_targetX = 1000, m_targetY = 0\<rparr>
    = \<lparr>m_x = 1000 - 10 / 2 ^ 43, m_y = 0, m_targetX = 1000, m_targetY = 0\<rparr>"
  by (induction n) (simp_all only: funpow.simps id_apply o_apply mouse_follow64_stalls)

text \<open>
  Claim C6, as amended. Over exact real arithmetic, with the smoothing constant \<open>0.05\<close> of
  \<open>animate\<close> and a raw target that no input event moves, on each axis where the smoothed
  pointer starts off the target the distance to the target strictly decreases with every
  tick, and from tick \<open>270\<close> on it is below one millionth of the initial distance.
\<close>

theorem pointer_smoothing_decay:
  assumes "isRunning s"
  shows "m_targetX (mouse (ticks n s)) = m_targetX (mouse s)
    \<and> m_targetY (mouse (ticks n s)) = m_targetY (mouse s)
    \<and> (m_x (mouse s) \<noteq> m_targetX (mouse s) \<longrightarrow>
         \<bar>m_targetX (mouse s) - m_x (mouse (ticks (Suc n) s))\<bar>
           < \<bar>m_targetX (mouse s) - m_x (mouse (ticks n s))\<bar>
         \<and> (270 \<le> n \<longrightarrow>
              \<bar>m_targetX (mouse s) - m_x (mouse (ticks n s))\<bar>
                < \<bar>m_targetX (mouse s) - m_x (mouse s)\<bar> / 10 ^ 6))
    \<and> (m_y (mouse s) \<noteq> m_targetY (mouse s) \<longrightarrow>
         \<bar>m_targetY (mouse s) - m_y (mouse (ticks (Suc n) s))\<bar>
           < \<bar>m_targetY (mouse s) - m_y (mouse (ticks n s))\<bar>
         \<and> (270 \<le> n \<longrightarrow>
              \<bar>m_targetY (mouse s) - m_y (mouse (ticks n s))\<bar>
                < \<bar>m_targetY (mouse s) - m_y (mouse s)\<bar> / 10 ^ 6))"
proof -
  have tgt: "m_targetX (mouse (ticks n s)) = m_targetX (mouse s)
      \<and> m_targetY (mouse (ticks n s)) = m_targetY (mouse s)"
    using funpow_mouse_follow_target [where k = "0.05" and n = n and m = "mouse s"]
    by (simp add: ticks_mouse [OF assms])
  have xs: "m_x (mouse s) \<noteq> m_targetX (mouse s) \<longrightarrow>
         \<bar>m_targetX (mouse s) - m_x (mouse (ticks (Suc n) s))\<bar>
           < \<bar>m_targetX (mouse s) - m_x (mouse (ticks n s))\<bar>
         \<and> (270 \<le> n \<longrightarrow>
              \<bar>m_targetX (mouse s) - m_x (mouse (ticks n s))\<bar>
                < \<bar>m_targetX (mouse s) - m_x (mouse s)\<bar> / 10 ^ 6)"
  proof
    assume "m_x (mouse s) \<noteq> m_targetX (mouse s)"
    then have g: "m_targetX (mouse s) - m_x (mouse s) \<noteq> 0" by simp
    show "\<bar>m_targetX (mouse s) - m_x (mouse (ticks (Suc n) s))\<bar>
           < \<bar>m_targetX (mouse s) - m_x (mouse (ticks n s))\<bar>
         \<and> (270 \<le> n \<longrightarrow>
              \<bar>m_targetX (mouse s) - m_x (mouse (ticks n s))\<bar>
                < \<bar>m_targetX (mouse s) - m_x (mouse s)\<bar> / 10 ^ 6)"
      using gap_decay [OF g, of n] by (simp only: ticks_gap(1) [OF assms]) blast
  qed
  have ys: "m_y (mouse s) \<noteq> m_targetY (mouse s) \<longrightarrow>
         \<bar>m_targetY (mouse s) - m_y (mouse (ticks (Suc n) s))\<bar>
           < \<bar>m_targetY (mouse s) - m_y (mouse (ticks n s))\<bar>
         \<and> (270 \<le> n \<longrightarrow>
              \<bar>m_targetY (mouse s) - m_y (mouse (ticks n s))\<bar>
                < \<bar>m_targetY (mouse s) - m_y (mouse s)\<bar> / 10 ^ 6)"
  proof
    assume "m_y (mouse s) \<noteq> m_targetY (mouse s)"
    then have g: "m_targetY (mouse s) - m_y (mouse s) \<noteq> 0" by simp
    show "\<bar>m_targetY (mouse s) - m_y (mouse (ticks (Suc n) s))\<bar>
           < \<bar>m_targetY (mouse s) - m_y (mouse (ticks n s))\<bar>
         \<and> (270 \<le> n \<longrightarrow>
              \<bar>m_targetY (mouse s) - m_y (mouse (ticks n s))\<bar>
                < \<bar>m_targetY (mouse s) - m_y (mouse s)\<bar> / 10 ^ 6)"
      using gap_decay [OF g, of n] by (simp only: ticks_gap(2) [OF assms]) blast
  qed
  show ?thesis using tgt xs ys by blast
qed

theorem pointer_smoothing_decay_witness:
  "isRunning (sample_engine \<lparr>m_x = 0, m_y = 0, m_targetX = 1000, m_targetY = 0\<rparr> [] 200 200)
   \<and> m_x (mouse (sample_engine \<lparr>m_x = 0, m_y = 0, m_targetX = 1000, m_targetY = 0\<rparr> [] 200 200))
       \<noteq> m_targetX (mouse (sample_engine \<lparr>m_x = 0, m_y = 0, m_targetX = 1000, m_targetY = 0\<rparr> [] 200 200))
   \<and> (270::nat) \<le> 270
   \<and> \<bar>1000 - m_x (mouse (ticks 270
          (sample_engine \<lparr>m_x = 0, m_y = 0, m_targetX = 1000, m_targetY = 0\<rparr> [] 200 200)))\<bar>
       < 1000 / 10 ^ 6"
proof -
  have r: "isRunning (sample_engine \<lparr>m_x = 0, m_y = 0, m_targetX = 1000, m_targetY = 0\<rparr> [] 200 200)"
    by (simp add: sample_engine_def)
  show ?thesis
    using pointer_smoothing_decay [OF r, where n = 270]
    by (simp add: sample_engine_def)
qed

theorem pointer_smoothing_counterexample:
  "\<not> (\<exists>n\<le>200.
        \<bar>1000 - m_x (mouse (ticks n
            (sample_engine \<lparr>m_x = 0, m_y = 0, m_targetX = 1000, m_targetY = 0\<rparr> [] 200 200)))\<bar>
          < \<bar>1000 - 0\<bar> / 10 ^ 6)
   \<and> \<not> \<bar>0 - m_y (mouse (ticks 1
            (sample_engine \<lparr>m_x = 0, m_y = 0, m_targetX = 1000, m_targetY = 0\<rparr> [] 200 200)))\<bar>
          < \<bar>0 - m_y (mouse (ticks 0
            (sample_engine \<lparr>m_x = 0, m_y = 0, m_targetX = 1000, m_targetY = 0\<rparr> [] 200 200)))\<bar>
   \<and> \<not> \<bar>1000 - m_x (mouse_follow64
            \<lparr>m_x = 1000 - 10 / 2 ^ 43, m_y = 0, m_targetX = 1000, m_targetY = 0\<rparr>)\<bar>
          < \<bar>1000 - (1000 - 10 / 2 ^ 43)\<bar>
   \<and> \<not> \<bar>1000 - m_x ((mouse_follow64 ^^ 270)
            \<lparr>m_x = 1000 - 10 / 2 ^ 43, m_y = 0, m_targetX = 1000, m_targetY = 0\<rparr>)\<bar>
          < \<bar>1000 - (1000 - 10 / 2 ^ 43)\<bar> / 10 ^ 6"
proof -
  let ?s = "sample_engine \<lparr>m_x = 0, m_y = 0, m_targetX = 1000, m_targetY = 0\<rparr> [] 200 200"
  have r: "isRunning ?s" by (simp add: sample_engine_def)
  have c: "\<not> \<bar>1000 - m_x (mouse_follow64
            \<lparr>m_x = 1000 - 10 / 2 ^ 43, m_y = 0, m_targetX = 1000, m_targetY = 0\<rparr>)\<bar>
          < \<bar>1000 - (1000 - 10 / 2 ^ 43)\<bar>"
    unfolding mouse_follow64_stalls by simp
  have d: "\<not> \<bar>1000 - m_x ((mouse_follow64 ^^ 270)
            \<lparr>m_x = 1000 - 10 / 2 ^ 43, m_y = 0, m_targetX = 1000, m_targetY = 0\<rparr>)\<bar>
          < \<bar>1000 - (1000 - 10 / 2 ^ 43)\<bar> / 10 ^ 6"
    unfolding mouse_follow64_stalls_funpow by simp
  have gx: "1000 - m_x (mouse (ticks n ?s)) = 1000 * (19 / 20) ^ n" for n
    using ticks_gap(1) [OF r, of n] by (simp add: sample_engine_def)
  have gy: "0 - m_y (mouse (ticks n ?s)) = 0" for n
    using ticks_gap(2) [OF r, of n] by (simp add: sample_engine_def)
  have a: "\<not> (\<exists>n\<le>200. \<bar>1000 - m_x (mouse (ticks n ?s))\<bar> < \<bar>1000 - 0\<bar> / 10 ^ 6)"
  proof
    assume "\<exists>n\<le>200. \<bar>1000 - m_x (mouse (ticks n ?s))\<bar> < \<bar>1000 - 0\<bar> / 10 ^ 6"
    then obtain n where n: "n \<le> 200" and lt: "\<bar>1000 - m_x (mouse (ticks n ?s))\<bar> < \<bar>1000 - 0\<bar> / 10 ^ 6"
      by blast
    have "(1000::real) * (19 / 20) ^ n < 1000 / 10 ^ 6"
      using lt by (simp only: gx) (simp add: abs_mult)
    then have "(19 / 20 :: real) ^ n < 1 / 10 ^ 6" by simp
    then show False using decay_le_200 [OF n] by linarith
  qed
  have b: "\<not> \<bar>0 - m_y (mouse (ticks 1 ?s))\<bar> < \<bar>0 - m_y (mouse (ticks 0 ?s))\<bar>"
    by (simp only: gy)
  show ?thesis using a b c d by blast
qed

subsection \<open>The single-particle scenario\<close>

lemma sqrt_less_400: "0 \<le> a \<Longrightarrow> a < 160000 \<Longrightarrow> sqrt a < maxDist"
  unfolding maxDist_def by (rule real_less_lsqrt) simp_all

lemma sqrt_ge_400: "160000 \<le> a \<Longrightarrow> \<not> sqrt a < maxDist"
proof -
  assume "160000 \<le> a"
  then have "(400::real)\<^sup>2 \<le> a" by simp
  then have "400 \<le> sqrt a" by (rule real_le_rsqrt)
  then show ?thesis by (simp add: maxDist_def)
qed

lemma sqrt_5000_bounds: "70 < sqrt 5000" "sqrt 5000 < 80"
proof -
  show "70 < sqrt 5000" by (rule real_less_rsqrt) simp
  show "sqrt 5000 < 80" by (rule real_less_lsqrt) simp_all
qed

lemma push_arith: "0 - 50 * ((400 - r) / 400) * (0.02::real) = r / 400 - 1"
  by (simp add: field_simps)

lemma scenario_interaction:
  "mouse_interaction 50 50 (0, 0) = (sqrt 5000 / 400 - 1, sqrt 5000 / 400 - 1)"
proof -
  have d: "sqrt ((50 - 0) * (50 - 0) + (50 - 0) * (50 - 0)) = sqrt 5000"
    by simp
  have lt: "sqrt 5000 < maxDist" by (rule sqrt_less_400) simp_all
  have "mouse_interaction 50 50 (0, 0) =
      (0 - (50 - 0) * force (sqrt 5000) * 0.02, 0 - (50 - 0) * force (sqrt 5000) * 0.02)"
    unfolding mouse_interaction_def Let_def fst_conv snd_conv d using lt by (simp only: if_True)
  also have "\<dots> = (sqrt 5000 / 400 - 1, sqrt 5000 / 400 - 1)"
    unfolding force_def maxDist_def using push_arith [of "sqrt 5000"] by (simp only: diff_zero)
  finally show ?thesis .
qed


lemma wrap_inside: "- sz \<le> v \<Longrightarrow> v \<le> ext + sz \<Longrightarrow> wrap sz ext v = v"
  by (simp add: wrap_def)

lemma scenario_update:
  assumes "p_x p = 0" "p_y p = 0" "p_speedX p = 0" "p_speedY p = 0" "p_amplitude p = 0"
    and "80 \<le> p_size p"
  shows "update_particle t \<lparr>m_x = 50, m_y = 50, m_targetX = 1000, m_targetY = 1000\<rparr> 200 200 p =
    (p\<lparr>p_x := sqrt 5000 / 400 - 1, p_y := sqrt 5000 / 400 - 1\<rparr>,
     \<lparr>g_x = sqrt 5000 / 400 - 1, g_y = sqrt 5000 / 400 - 1, g_radius = p_size p\<rparr>)"
proof -
  have lo: "- p_size p \<le> sqrt 5000 / 400 - 1"
    using sqrt_5000_bounds(1) assms(6) by linarith
  have hi: "sqrt 5000 / 400 - 1 \<le> 200 + p_size p"
    using sqrt_5000_bounds(2) assms(6) by linarith
  have w: "wrap (p_size p) 200 (sqrt 5000 / 400 - 1) = sqrt 5000 / 400 - 1"
    using lo hi by (rule wrap_inside)
  show ?thesis
    unfolding update_particle_def Let_def
    by (simp add: assms(1-5) scenario_interaction w)
qed

lemma scenario_tick:
  assumes "isRunning s" "width s = 200" "height s = 200" "particles s = [p]"
    and "mouse s = \<lparr>m_x = 0, m_y = 0, m_targetX = 1000, m_targetY = 1000\<rparr>"
    and "p_x p = 0" "p_y p = 0" "p_speedX p = 0" "p_speedY p = 0" "p_amplitude p = 0"
    and "80 \<le> p_size p"
  shows "particles (fst (animate s)) = [p\<lparr>p_x := sqrt 5000 / 400 - 1, p_y := sqrt 5000 / 400 - 1\<rparr>]"
    and "snd (animate s) = [\<lparr>g_x = sqrt 5000 / 400 - 1, g_y = sqrt 5000 / 400 - 1, g_radius = p_size p\<rparr>]"
proof -
  have m: "mouse_follow 0.05 (mouse s) = \<lparr>m_x = 50, m_y = 50, m_targetX = 1000, m_targetY = 1000\<rparr>"
    by (simp add: assms(5) mouse_follow_def)
  have u: "update_particle (time s + 0.01) (mouse_follow 0.05 (mouse s)) 200 200 p =
    (p\<lparr>p_x := sqrt 5000 / 400 - 1, p_y := sqrt 5000 / 400 - 1\<rparr>,
     \<lparr>g_x = sqrt 5000 / 400 - 1, g_y = sqrt 5000 / 400 - 1, g_radius = p_size p\<rparr>)"
    unfolding m using assms(6-11) by (rule scenario_update)
  have a: "animate s =
    (s\<lparr>time := time s + 0.01, mouse := mouse_follow 0.05 (mouse s),
       particles := [fst (update_particle (time s + 0.01) (mouse_follow 0.05 (mouse s)) 200 200 p)],
       scheduled := Suc (scheduled s)\<rparr>,
     [snd (update_particle (time s + 0.01) (mouse_follow 0.05 (mouse s)) 200 200 p)])"
    unfolding animate_def Let_def using assms(1-4) by simp
  show "particles (fst (animate s)) = [p\<lparr>p_x := sqrt 5000 / 400 - 1, p_y := sqrt 5000 / 400 - 1\<rparr>]"
    unfolding a u by simp
  show "snd (animate s) = [\<lparr>g_x = sqrt 5000 / 400 - 1, g_y = sqrt 5000 / 400 - 1, g_radius = p_size p\<rparr>]"
    unfolding a u by simp
qed

text \<open>
  Claim C1, as amended. In the scenario (one particle at \<open>(0, 0)\<close> without drift and without
  amplitude, of a size in the creation range, viewport \<open>200 \<times> 200\<close>, smoothed pointer at
  \<open>(0, 0)\<close>, raw target \<open>(1000, 1000)\<close>), one tick moves the smoothed pointer to \<open>(50, 50)\<close>
  and the particle away from it: both coordinates become \<open>sqrt 5000 / 400 - 1\<close>, which lies
  between \<open>-0.825\<close> and \<open>-0.8\<close>, and no wrapping takes place.
\<close>

theorem scenario_moves_away:
  assumes "isRunning s" "width s = 200" "height s = 200" "particles s = [p]"
    and "mouse s = \<lparr>m_x = 0, m_y = 0, m_targetX = 1000, m_targetY = 1000\<rparr>"
    and "p_x p = 0" "p_y p = 0" "p_speedX p = 0" "p_speedY p = 0" "p_amplitude p = 0"
    and "80 \<le> p_size p"
  shows "particles (fst (animate s)) =
        [p\<lparr>p_x := sqrt 5000 / 400 - 1, p_y := sqrt 5000 / 400 - 1\<rparr>]
    \<and> - (33 / 40) < sqrt 5000 / 400 - 1
    \<and> sqrt 5000 / 400 - 1 < - (4 / 5)"
proof -
  have "- (33 / 40) < sqrt 5000 / 400 - 1" using sqrt_5000_bounds(1) by linarith
  moreover have "sqrt 5000 / 400 - 1 < - (4 / 5)" using sqrt_5000_bounds(2) by linarith
  ultimately show ?thesis using scenario_tick(1) [OF assms] by simp
qed

theorem scenario_moves_away_witness:
  "p_x (particles (fst (animate (sample_engine
        \<lparr>m_x = 0, m_y = 0, m_targetX = 1000, m_targetY = 1000\<rparr>
        [sample_particle 0 0 80 0] 200 200))) ! 0) < - (4 / 5)
   \<and> p_y (particles (fst (animate (sample_engine
        \<lparr>m_x = 0, m_y = 0, m_targetX = 1000, m_targetY = 1000\<rparr>
        [sample_particle 0 0 80 0] 200 200))) ! 0) < - (4 / 5)"
proof -
  let ?s = "sample_engine \<lparr>m_x = 0, m_y = 0, m_targetX = 1000, m_targetY = 1000\<rparr>
    [sample_particle 0 0 80 0] 200 200"
  have h: "isRunning ?s" "width ?s = 200" "height ?s = 200"
    "particles ?s = [sample_particle 0 0 80 0]"
    "mouse ?s = \<lparr>m_x = 0, m_y = 0, m_targetX = 1000, m_targetY = 1000\<rparr>"
    "p_x (sample_particle 0 0 80 0) = 0" "p_y (sample_particle 0 0 80 0) = 0"
    "p_speedX (sample_particle 0 0 80 0) = 0" "p_speedY (sample_particle 0 0 80 0) = 0"
    "p_amplitude (sample_particle 0 0 80 0) = 0" "80 \<le> p_size (sample_particle 0 0 80 0)"
    by (simp_all add: sample_engine_def sample_particle_def)
  show ?thesis
    using scenario_moves_away [OF h] by simp
qed

theorem scenario_toward_pointer_counterexample:
  "\<not> (0 < p_x (particles (fst (animate (sample_engine
          \<lparr>m_x = 0, m_y = 0, m_targetX = 1000, m_targetY = 1000\<rparr>
          [sample_particle 0 0 80 0] 200 200))) ! 0) - 0
      \<and> 0 < p_y (particles (fst (animate (sample_engine
          \<lparr>m_x = 0, m_y = 0, m_targetX = 1000, m_targetY = 1000\<rparr>
          [sample_particle 0 0 80 0] 200 200))) ! 0) - 0)"
proof -
  let ?s = "sample_engine \<lparr>m_x = 0, m_y = 0, m_targetX = 1000, m_targetY = 1000\<rparr>
    [sample_particle 0 0 80 0] 200 200"
  have h: "isRunning ?s" "width ?s = 200" "height ?s = 200"
    "particles ?s = [sample_particle 0 0 80 0]"
    "mouse ?s = \<lparr>m_x = 0, m_y = 0, m_targetX = 1000, m_targetY = 1000\<rparr>"
    "p_x (sample_particle 0 0 80 0) = 0" "p_y (sample_particle 0 0 80 0) = 0"
    "p_speedX (sample_particle 0 0 80 0) = 0" "p_speedY (sample_particle 0 0 80 0) = 0"
    "p_amplitude (sample_particle 0 0 80 0) = 0" "80 \<le> p_size (sample_particle 0 0 80 0)"
    by (simp_all add: sample_engine_def sample_particle_def)
  have "sqrt 5000 / 400 - 1 < 0" using sqrt_5000_bounds(2) by linarith
  then show ?thesis
    using scenario_tick(1) [OF h] by simp
qed

subsection \<open>Wrapping and rendering\<close>

lemma wrap_bounds:
  "0 \<le> sz \<Longrightarrow> 0 \<le> ext \<Longrightarrow> - sz \<le> wrap sz ext v \<and> wrap sz ext v \<le> ext + sz"
  by (simp add: wrap_def)

lemma wrap_below: "v < - sz \<Longrightarrow> wrap sz ext v = ext + sz"
  by (simp add: wrap_def)

lemma wrap_above: "0 \<le> sz \<Longrightarrow> 0 \<le> ext \<Longrightarrow> ext + sz < v \<Longrightarrow> wrap sz ext v = - sz"
  by (simp add: wrap_def)

lemma update_particle_stored:
  "p_x (fst (update_particle t m w h p)) =
     wrap (p_size p) (real w)
       (fst (mouse_interaction (m_x m) (m_y m) (p_x p + p_speedX p, p_y p + p_speedY p)))"
  "p_y (fst (update_particle t m w h p)) =
     wrap (p_size p) (real h)
       (snd (mouse_interaction (m_x m) (m_y m) (p_x p + p_speedX p, p_y p + p_speedY p)))"
  "p_size (fst (update_particle t m w h p)) = p_size p"
  "p_amplitude (fst (update_particle t m w h p)) = p_amplitude p"
  "p_phase (fst (update_particle t m w h p)) = p_phase p"
  "p_speedX (fst (update_particle t m w h p)) = p_speedX p"
  "p_speedY (fst (update_particle t m w h p)) = p_speedY p"
  "p_color (fst (update_particle t m w h p)) = p_color p"
  by (simp_all add: update_particle_def Let_def)

lemma update_particle_glow:
  "g_x (snd (update_particle t m w h p)) =
     p_x (fst (update_particle t m w h p)) + sin (t + p_phase p) * p_amplitude p"
  "g_y (snd (update_particle t m w h p)) =
     p_y (fst (update_particle t m w h p)) + cos (t * 0.8 + p_phase p) * p_amplitude p"
  "g_radius (snd (update_particle t m w h p)) = p_size p"
  by (simp_all add: update_particle_def Let_def)

lemma animate_nth:
  assumes "isRunning s" and "i < length (particles s)"
  shows "particles (fst (animate s)) ! i =
      fst (update_particle (time s + 0.01) (mouse_follow 0.05 (mouse s)) (width s) (height s)
        (particles s ! i))"
    and "snd (animate s) ! i =
      snd (update_particle (time s + 0.01) (mouse_follow 0.05 (mouse s)) (width s) (height s)
        (particles s ! i))"
  using assms by (simp_all add: animate_def Let_def)

lemma animate_lengths:
  "length (particles (fst (animate s))) = length (particles s)"
  "isRunning s \<Longrightarrow> length (snd (animate s)) = length (particles s)"
  by (simp_all add: animate_def Let_def)

lemma mouse_interaction_far:
  assumes "160000 \<le> (mx - px) * (mx - px) + (my - py) * (my - py)"
  shows "mouse_interaction mx my (px, py) = (px, py)"
  using sqrt_ge_400 [OF assms] by (simp add: mouse_interaction_def Let_def)

lemma oscillation_bounds:
  fixes a c :: real
  assumes "\<bar>c\<bar> \<le> 1"
  shows "- \<bar>a\<bar> \<le> c * a" and "c * a \<le> \<bar>a\<bar>"
proof -
  have "\<bar>c * a\<bar> \<le> 1 * \<bar>a\<bar>"
    unfolding abs_mult using assms by (intro mult_right_mono) simp_all
  then show "- \<bar>a\<bar> \<le> c * a" and "c * a \<le> \<bar>a\<bar>" by linarith+
qed

lemma far_engine_facts:
  "isRunning (sample_engine \<lparr>m_x = 3000, m_y = 3000, m_targetX = 3000, m_targetY = 3000\<rparr>
      [sample_particle (- 500) 5000 80 30] 200 200)"
  "0 < length (particles (sample_engine \<lparr>m_x = 3000, m_y = 3000, m_targetX = 3000, m_targetY = 3000\<rparr>
      [sample_particle (- 500) 5000 80 30] 200 200))"
  "0 \<le> p_size (particles (sample_engine \<lparr>m_x = 3000, m_y = 3000, m_targetX = 3000, m_targetY = 3000\<rparr>
      [sample_particle (- 500) 5000 80 30] 200 200) ! 0)"
  by (simp_all add: sample_engine_def sample_particle_def)

lemma far_engine_pre:
  "mouse_interaction 3000 3000 (- 500, 5000) = (- 500, 5000)"
  by (rule mouse_interaction_far) simp

text \<open>
  Claim C3. After a tick, every particle of a non-negative size (the creation range is
  \<open>[80, 230)\<close>) has its stored position inside \<open>[-size, width + size] \<times> [-size, height + size]\<close>,
  whatever its position before the tick, its drift and the pointer state. \<open>pre\<close> is the position
  after drift and mouse interaction: a component of it below \<open>-size\<close> is stored as the opposite
  boundary \<open>width + size\<close> (or \<open>height + size\<close>), one above that boundary is stored as \<open>-size\<close>,
  and one inside the range is stored as it is. The size itself is not changed by the tick.
\<close>

theorem stored_position_wrapped:
  assumes "isRunning s" and "i < length (particles s)" and "0 \<le> p_size (particles s ! i)"
  shows "let p = particles s ! i;
             p' = particles (fst (animate s)) ! i;
             m = mouse_follow 0.05 (mouse s);
             pre = mouse_interaction (m_x m) (m_y m) (p_x p + p_speedX p, p_y p + p_speedY p)
         in p_size p' = p_size p
          \<and> - p_size p \<le> p_x p' \<and> p_x p' \<le> real (width s) + p_size p
          \<and> - p_size p \<le> p_y p' \<and> p_y p' \<le> real (height s) + p_size p
          \<and> (fst pre < - p_size p \<longrightarrow> p_x p' = real (width s) + p_size p)
          \<and> (real (width s) + p_size p < fst pre \<longrightarrow> p_x p' = - p_size p)
          \<and> (- p_size p \<le> fst pre \<and> fst pre \<le> real (width s) + p_size p \<longrightarrow> p_x p' = fst pre)
          \<and> (snd pre < - p_size p \<longrightarrow> p_y p' = real (height s) + p_size p)
          \<and> (real (height s) + p_size p < snd pre \<longrightarrow> p_y p' = - p_size p)
          \<and> (- p_size p \<le> snd pre \<and> snd pre \<le> real (height s) + p_size p \<longrightarrow> p_y p' = snd pre)"
proof -
  have w: "(0::real) \<le> real (width s)" and h: "(0::real) \<le> real (height s)" by simp_all
  note sz = assms(3)
  show ?thesis
    unfolding Let_def animate_nth(1) [OF assms(1,2)] update_particle_stored
    using wrap_bounds [OF sz w] wrap_bounds [OF sz h]
      wrap_below [of _ "p_size (particles s ! i)"]
      wrap_above [OF sz w] wrap_above [OF sz h] wrap_inside
    by (intro conjI impI) auto
qed

theorem stored_position_wrapped_witness:
  "isRunning (sample_engine \<lparr>m_x = 3000, m_y = 3000, m_targetX = 3000, m_targetY = 3000\<rparr>
      [sample_particle (- 500) 5000 80 30] 200 200)
   \<and> 0 < length (particles (sample_engine \<lparr>m_x = 3000, m_y = 3000, m_targetX = 3000, m_targetY = 3000\<rparr>
      [sample_particle (- 500) 5000 80 30] 200 200))
   \<and> 0 \<le> p_size (particles (sample_engine \<lparr>m_x = 3000, m_y = 3000, m_targetX = 3000, m_targetY = 3000\<rparr>
      [sample_particle (- 500) 5000 80 30] 200 200) ! 0)
   \<and> p_x (particles (fst (animate (sample_engine
        \<lparr>m_x = 3000, m_y = 3000, m_targetX = 3000, m_targetY = 3000\<rparr>
        [sample_particle (- 500) 5000 80 30] 200 200))) ! 0) = 280
   \<and> p_y (particles (fst (animate (sample_engine
        \<lparr>m_x = 3000, m_y = 3000, m_targetX = 3000, m_targetY = 3000\<rparr>
        [sample_particle (- 500) 5000 80 30] 200 200))) ! 0) = - 80"
proof -
  let ?s = "sample_engine \<lparr>m_x = 3000, m_y = 3000, m_targetX = 3000, m_targetY = 3000\<rparr>
      [sample_particle (- 500) 5000 80 30] 200 200"
  have v: "particles ?s ! 0 = sample_particle (- 500) 5000 80 30"
      "mouse_follow 0.05 (mouse ?s) = \<lparr>m_x = 3000, m_y = 3000, m_targetX = 3000, m_targetY = 3000\<rparr>"
      "width ?s = 200" "height ?s = 200"
    by (simp_all add: sample_engine_def mouse_follow_def)
  have q: "p_x (sample_particle (- 500) 5000 80 30) + p_speedX (sample_particle (- 500) 5000 80 30) = - 500"
      "p_y (sample_particle (- 500) 5000 80 30) + p_speedY (sample_particle (- 500) 5000 80 30) = 5000"
      "p_size (sample_particle (- 500) 5000 80 30) = 80"
    by (simp_all add: sample_particle_def)
  show ?thesis
    using stored_position_wrapped [OF far_engine_facts] far_engine_facts
    unfolding Let_def v q
    by (simp add: far_engine_pre)
qed

text \<open>
  Claim C2, as amended. For every particle of a non-negative size and every tick, the glow is
  painted at the stored position plus the oscillation offset; the stored position lies within
  \<open>[-size, width + size] \<times> [-size, height + size]\<close>, and the rendered position within that box
  widened by the particle's amplitude on every side.
\<close>

theorem rendered_position_bounds:
  assumes "isRunning s" and "i < length (particles s)" and "0 \<le> p_size (particles s ! i)"
  shows "let p = particles s ! i;
             p' = particles (fst (animate s)) ! i;
             g = snd (animate s) ! i
         in g_x g = p_x p' + sin (time s + 0.01 + p_phase p) * p_amplitude p
          \<and> g_y g = p_y p' + cos ((time s + 0.01) * 0.8 + p_phase p) * p_amplitude p
          \<and> - p_size p \<le> p_x p' \<and> p_x p' \<le> real (width s) + p_size p
          \<and> - p_size p \<le> p_y p' \<and> p_y p' \<le> real (height s) + p_size p
          \<and> - p_size p - \<bar>p_amplitude p\<bar> \<le> g_x g
          \<and> g_x g \<le> real (width s) + p_size p + \<bar>p_amplitude p\<bar>
          \<and> - p_size p - \<bar>p_amplitude p\<bar> \<le> g_y g
          \<and> g_y g \<le> real (height s) + p_size p + \<bar>p_amplitude p\<bar>"
proof -
  let ?p = "particles s ! i"
  let ?t = "time s + 0.01"
  let ?u = "update_particle ?t (mouse_follow 0.05 (mouse s)) (width s) (height s) ?p"
  have w: "(0::real) \<le> real (width s)" and h: "(0::real) \<le> real (height s)" by simp_all
  note sz = assms(3)
  have bx: "- p_size ?p \<le> p_x (fst ?u) \<and> p_x (fst ?u) \<le> real (width s) + p_size ?p"
    unfolding update_particle_stored by (rule wrap_bounds [OF sz w])
  have bh: "- p_size ?p \<le> p_y (fst ?u) \<and> p_y (fst ?u) \<le> real (height s) + p_size ?p"
    unfolding update_particle_stored by (rule wrap_bounds [OF sz h])
  have ox: "- \<bar>p_amplitude ?p\<bar> \<le> sin (?t + p_phase ?p) * p_amplitude ?p"
      "sin (?t + p_phase ?p) * p_amplitude ?p \<le> \<bar>p_amplitude ?p\<bar>"
    by (rule oscillation_bounds, rule abs_sin_le_one)+
  have oy: "- \<bar>p_amplitude ?p\<bar> \<le> cos (?t * 0.8 + p_phase ?p) * p_amplitude ?p"
      "cos (?t * 0.8 + p_phase ?p) * p_amplitude ?p \<le> \<bar>p_amplitude ?p\<bar>"
    by (rule oscillation_bounds, rule abs_cos_le_one)+
  have gx: "g_x (snd ?u) = p_x (fst ?u) + sin (?t + p_phase ?p) * p_amplitude ?p"
    and gy: "g_y (snd ?u) = p_y (fst ?u) + cos (?t * 0.8 + p_phase ?p) * p_amplitude ?p"
    by (rule update_particle_glow)+
  show ?thesis
    unfolding Let_def animate_nth [OF assms(1,2)]
    using bx bh ox oy gx gy by (intro conjI) linarith+
qed

theorem rendered_position_bounds_witness:
  "isRunning (sample_engine \<lparr>m_x = 3000, m_y = 3000, m_targetX = 3000, m_targetY = 3000\<rparr>
      [sample_particle (- 500) 5000 80 30] 200 200)
   \<and> 0 < length (particles (sample_engine \<lparr>m_x = 3000, m_y = 3000, m_targetX = 3000, m_targetY = 3000\<rparr>
      [sample_particle (- 500) 5000 80 30] 200 200))
   \<and> 0 \<le> p_size (particles (sample_engine \<lparr>m_x = 3000, m_y = 3000, m_targetX = 3000, m_targetY = 3000\<rparr>
      [sample_particle (- 500) 5000 80 30] 200 200) ! 0)
   \<and> - 110 \<le> g_x (snd (animate (sample_engine
        \<lparr>m_x = 3000, m_y = 3000, m_targetX = 3000, m_targetY = 3000\<rparr>
        [sample_particle (- 500) 5000 80 30] 200 200)) ! 0)
   \<and> g_x (snd (animate (sample_engine
        \<lparr>m_x = 3000, m_y = 3000, m_targetX = 3000, m_targetY = 3000\<rparr>
        [sample_particle (- 500) 5000 80 30] 200 200)) ! 0) \<le> 310"
proof -
  let ?s = "sample_engine \<lparr>m_x = 3000, m_y = 3000, m_targetX = 3000, m_targetY = 3000\<rparr>
      [sample_particle (- 500) 5000 80 30] 200 200"
  have v: "particles ?s ! 0 = sample_particle (- 500) 5000 80 30" "width ?s = 200"
    by (simp_all add: sample_engine_def)
  have q: "p_size (sample_particle (- 500) 5000 80 30) = 80"
      "p_amplitude (sample_particle (- 500) 5000 80 30) = 30"
    by (simp_all add: sample_particle_def)
  show ?thesis
    using rendered_position_bounds [OF far_engine_facts] far_engine_facts
    unfolding Let_def v q
    by simp
qed

lemma cos_small_pos: "0 < cos (0.008 :: real)"
proof (rule cos_gt_zero)
  show "(0::real) < 0.008" by simp
  show "(0.008::real) < pi / 2" using pi_ge_two by simp
qed

theorem rendered_position_counterexample:
  "\<not> g_y (snd (animate (sample_engine \<lparr>m_x = 0, m_y = 0, m_targetX = 0, m_targetY = 0\<rparr>
        [sample_particle 500 1080 80 30] 1000 1000)) ! 0) \<le> 1000 + 80"
proof -
  let ?s = "sample_engine \<lparr>m_x = 0, m_y = 0, m_targetX = 0, m_targetY = 0\<rparr>
        [sample_particle 500 1080 80 30] 1000 1000"
  have r: "isRunning ?s" "0 < length (particles ?s)"
    by (simp_all add: sample_engine_def)
  have v: "particles ?s ! 0 = sample_particle 500 1080 80 30"
      "mouse_follow 0.05 (mouse ?s) = \<lparr>m_x = 0, m_y = 0, m_targetX = 0, m_targetY = 0\<rparr>"
      "height ?s = 1000" "time ?s = 0"
    by (simp_all add: sample_engine_def mouse_follow_def)
  have q: "p_x (sample_particle 500 1080 80 30) + p_speedX (sample_particle 500 1080 80 30) = 500"
      "p_y (sample_particle 500 1080 80 30) + p_speedY (sample_particle 500 1080 80 30) = 1080"
      "p_size (sample_particle 500 1080 80 30) = 80"
      "p_amplitude (sample_particle 500 1080 80 30) = 30"
      "p_phase (sample_particle 500 1080 80 30) = 0"
    by (simp_all add: sample_particle_def)
  have far: "mouse_interaction 0 0 (500, 1080) = (500, 1080)"
    by (rule mouse_interaction_far) simp
  have w: "wrap 80 1000 1080 = 1080"
    by (rule wrap_inside) simp_all
  have "g_y (snd (animate ?s) ! 0) = 1080 + cos (0.008) * 30"
    unfolding animate_nth(2) [OF r] update_particle_glow update_particle_stored v q
    by (simp add: far w)
  then show ?thesis using cos_small_pos by simp
qed

subsection \<open>Particle count\<close>

text \<open>\<open>Math.random()\<close> returns a value in \<open>[0, 1)\<close>, for which the palette lookup never misses.\<close>

lemma pick_color_in_palette:
  assumes "0 \<le> r" and "r < 1"
  shows "\<exists>c \<in> set colors. pick_color r = Some c"
proof -
  have len: "length colors = 5" by (simp add: colors_def)
  have lo: "0 \<le> \<lfloor>r * 5\<rfloor>" using assms(1) by simp
  have "r * 5 < 5" using assms(2) by simp
  then have fl: "\<lfloor>r * 5\<rfloor> < 5" by (simp add: floor_less_iff)
  have hi: "nat \<lfloor>r * 5\<rfloor> < length colors" unfolding len using lo fl by arith
  have "pick_color r = Some (colors ! nat \<lfloor>r * 5\<rfloor>)"
    unfolding pick_color_def Let_def using lo hi by (simp only: len of_nat_numeral if_True conj_commute simp_thms)
  then show ?thesis using hi nth_mem by blast
qed

lemma createParticles_loop_eq:
  "createParticles_loop rnd n w h i ps = ps @ map (new_particle rnd w h) [i..<n]"
proof (induction rnd n w h i ps rule: createParticles_loop.induct)
  case (1 rnd n w h i ps)
  show ?case
  proof (cases "i < n")
    case True
    then have "createParticles_loop rnd n w h i ps =
        createParticles_loop rnd n w h (Suc i) (ps @ [new_particle rnd w h i])"
      by (simp add: createParticles_loop.simps [of rnd n w h i ps])
    also have "\<dots> = (ps @ [new_particle rnd w h i]) @ map (new_particle rnd w h) [Suc i..<n]"
      using True by (rule "1.IH")
    also have "\<dots> = ps @ map (new_particle rnd w h) [i..<n]"
      using True by (simp add: upt_conv_Cons)
    finally show ?thesis .
  next
    case False
    then show ?thesis
      by (simp add: createParticles_loop.simps [of rnd n w h i ps])
  qed
qed

lemma createParticles_particles:
  "particles (createParticles rnd s) =
     map (new_particle rnd (width s) (height s)) [0..<particleCount s]"
  by (simp add: createParticles_def createParticles_loop_eq)

lemma createParticles_fields:
  "particleCount (createParticles rnd s) = particleCount s"
  "isRunning (createParticles rnd s) = isRunning s"
  "width (createParticles rnd s) = width s"
  "height (createParticles rnd s) = height s"
  by (simp_all add: createParticles_def)

lemma resize_fields:
  "particleCount (resize c s) = particleCount s"
  "width (resize c s) = offsetWidth c"
  "height (resize c s) = offsetHeight c"
  "isRunning (resize c s) = isRunning s"
  by (simp_all add: resize_def)

lemma handle_Resize:
  "handle rnd (Resize c) s = createParticles rnd (resize c s)"
  by (simp add: handle_def)

lemma animate_particleCount: "particleCount (fst (animate s)) = particleCount s"
  by (simp add: animate_def Let_def)

lemma ticks_length: "length (particles (ticks n s)) = length (particles s)"
  by (induction n) (simp_all add: ticks_Suc animate_lengths(1), simp add: ticks_def)

lemma handle_count:
  assumes "length (particles s) = particleCount s"
  shows "length (particles (handle rnd ev s)) = particleCount s
    \<and> particleCount (handle rnd ev s) = particleCount s"
proof (cases ev)
  case (MouseMove cx cy)
  then show ?thesis using assms by (simp add: handle_def)
next
  case (TouchMove touches)
  then show ?thesis using assms by (cases touches) (simp_all add: handle_def)
next
  case (Resize c)
  then show ?thesis
    by (simp add: handle_Resize createParticles_particles createParticles_fields resize_fields)
next
  case (VisibilityChange hidden)
  then show ?thesis
    using assms by (simp add: handle_def Let_def animate_lengths(1) animate_particleCount)
next
  case AnimationFrame
  then show ?thesis
    using assms by (simp add: handle_def animate_lengths(1) animate_particleCount)
qed

lemma run_count:
  "length (particles s) = particleCount s \<Longrightarrow>
   length (particles (run evs s)) = particleCount s \<and> particleCount (run evs s) = particleCount s"
proof (induction evs arbitrary: s)
  case Nil
  then show ?case by simp
next
  case (Cons re evs)
  have h: "length (particles (handle (fst re) (snd re) s)) = particleCount s"
      "particleCount (handle (fst re) (snd re) s) = particleCount s"
    using handle_count [OF Cons.prems] by simp_all
  have "length (particles (handle (fst re) (snd re) s)) = particleCount (handle (fst re) (snd re) s)"
    using h by simp
  from Cons.IH [OF this] show ?case using h by simp
qed

lemma construct_Some:
  "\<exists>e. construct rnd (Some c) = Inr e \<and> particleCount e = 80 \<and> length (particles e) = 80
       \<and> isRunning e \<and> width e = offsetWidth c \<and> height e = offsetHeight c"
  by (simp add: construct_def Let_def animate_particleCount animate_lengths(1)
      createParticles_particles createParticles_fields resize_fields animate_running_fields)

text \<open>
  Claim C7. \<open>createParticles\<close> leaves exactly \<open>particleCount\<close> particles; a tick, and any
  number of ticks, keeps the length of the list; a resize replaces the list by
  \<open>particleCount\<close> particles drawn afresh for the container's new dimensions, the same
  whatever list was there before; and the constructor sets \<open>particleCount = 80\<close> and leaves
  \<open>80\<close> particles, as does every sequence of notifications after it.
\<close>

theorem particle_count_constant:
  "length (particles (createParticles rnd s)) = particleCount s
   \<and> particleCount (createParticles rnd s) = particleCount s
   \<and> length (particles (fst (animate s))) = length (particles s)
   \<and> length (particles (ticks n s)) = length (particles s)
   \<and> particles (handle rnd (Resize c) s) =
       map (new_particle rnd (offsetWidth c) (offsetHeight c)) [0..<particleCount s]
   \<and> length (particles (handle rnd (Resize c) s)) = particleCount s
   \<and> particles (handle rnd (Resize c) (s\<lparr>particles := ps\<rparr>)) = particles (handle rnd (Resize c) s)
   \<and> (\<exists>e. construct rnd (Some c) = Inr e \<and> particleCount e = 80 \<and> length (particles e) = 80
          \<and> length (particles (run evs e)) = 80)"
proof -
  have a: "length (particles (createParticles rnd s)) = particleCount s"
    by (simp add: createParticles_particles)
  have b: "particles (handle rnd (Resize c) s) =
       map (new_particle rnd (offsetWidth c) (offsetHeight c)) [0..<particleCount s]"
    by (simp add: handle_Resize createParticles_particles resize_fields)
  have b': "particles (handle rnd (Resize c) (s\<lparr>particles := ps\<rparr>)) =
       map (new_particle rnd (offsetWidth c) (offsetHeight c)) [0..<particleCount s]"
    by (simp add: handle_Resize createParticles_particles resize_fields)
  obtain e where e: "construct rnd (Some c) = Inr e" "particleCount e = 80" "length (particles e) = 80"
    using construct_Some [of rnd c] by blast
  have "length (particles (run evs e)) = 80"
    using run_count [of e evs] e by simp
  then have d: "\<exists>e. construct rnd (Some c) = Inr e \<and> particleCount e = 80 \<and> length (particles e) = 80
          \<and> length (particles (run evs e)) = 80"
    using e by blast
  show ?thesis
    using a b b' d by (simp add: createParticles_fields animate_lengths(1) ticks_length)
qed

subsection \<open>Pausing\<close>







subsection \<open>Absent container\<close>

text \<open>
  Claim C10. When \<open>document.querySelector('.hero-bg')\<close> finds no container, the
  \<open>DOMContentLoaded\<close> listener constructs no engine and raises nothing, whereas the
  constructor called on a null container would throw; with a container present the listener
  constructs an engine.
\<close>

theorem container_absent_no_op:
  "domContentLoaded rnd None = Inr None
   \<and> construct rnd None = Inl TypeError
   \<and> (\<exists>e. domContentLoaded rnd (Some c) = Inr (Some e))"
proof -
  obtain e where "construct rnd (Some c) = Inr e"
    using construct_Some [of rnd c] by blast
  then show ?thesis
    by (simp add: domContentLoaded_def construct_def)
qed

subsection \<open>Grain overlay on a pixel buffer\<close>

lemma to_uint8_clamped_range: "0 \<le> to_uint8_clamped v \<and> to_uint8_clamped v \<le> 255"
proof -
  consider "v \<le> 0" | "255 \<le> v" | "0 < v" "v < 255" by linarith
  then show ?thesis
  proof cases
    case 1
    then show ?thesis by (simp add: to_uint8_clamped_def)
  next
    case 2
    then show ?thesis by (simp add: to_uint8_clamped_def)
  next
    case 3
    have lo: "0 \<le> \<lfloor>v\<rfloor>" using 3(1) by simp
    have "\<lfloor>v\<rfloor> < 255" using 3(2) by (simp add: floor_less_iff)
    then have hi: "\<lfloor>v\<rfloor> + 1 \<le> 255" by simp
    show ?thesis
      using 3 lo hi by (simp add: to_uint8_clamped_def Let_def)
  qed
qed

lemma length_set_channel: "length (set_channel j noise data) = length data"
  by (simp add: set_channel_def)

lemma nth_set_channel_other: "j' \<noteq> j \<Longrightarrow> set_channel j noise data ! j' = data ! j'"
  by (simp add: set_channel_def)

lemma set_channel_range:
  assumes "\<forall>e \<in> set data. 0 \<le> e \<and> e \<le> 255"
  shows "\<forall>e \<in> set (set_channel j noise data). 0 \<le> e \<and> e \<le> 255"
proof (cases "j < length data")
  case True
  let ?v = "to_uint8_clamped (max 0 (min 255 (real_of_int (data ! j) + noise)))"
  have "set (data[j := ?v]) \<subseteq> insert ?v (set data)"
    by (rule set_update_subset_insert)
  moreover have "0 \<le> ?v \<and> ?v \<le> 255" by (rule to_uint8_clamped_range)
  ultimately have "\<forall>e \<in> set (data[j := ?v]). 0 \<le> e \<and> e \<le> 255"
    using assms by blast
  then show ?thesis using True by (simp only: set_channel_def if_True)
next
  case False
  then show ?thesis using assms by (simp only: set_channel_def if_False) 
qed

lemma addNoise_loop_length: "length (addNoise_loop rnd k i data) = length data"
proof (induction rnd k i data rule: addNoise_loop.induct)
  case (1 rnd k i data)
  show ?case
  proof (cases "i < length data")
    case True
    then show ?thesis
      using "1.IH" [OF True refl]
      by (simp add: addNoise_loop.simps [of rnd k i data] Let_def length_set_channel)
  next
    case False
    then show ?thesis by (simp add: addNoise_loop.simps [of rnd k i data])
  qed
qed

lemma addNoise_loop_range:
  "\<forall>e \<in> set data. 0 \<le> e \<and> e \<le> 255 \<Longrightarrow>
   \<forall>e \<in> set (addNoise_loop rnd k i data). 0 \<le> e \<and> e \<le> 255"
proof (induction rnd k i data rule: addNoise_loop.induct)
  case (1 rnd k i data)
  show ?case
  proof (cases "i < length data")
    case True
    let ?noise = "(rnd k - 0.5) * 8"
    let ?d = "set_channel (i + 2) ?noise (set_channel (i + 1) ?noise (set_channel i ?noise data))"
    have "\<forall>e \<in> set ?d. 0 \<le> e \<and> e \<le> 255"
      by (intro set_channel_range "1.prems")
    then have "\<forall>e \<in> set (addNoise_loop rnd (Suc k) (i + 16) ?d). 0 \<le> e \<and> e \<le> 255"
      by (rule "1.IH" [OF True refl])
    then show ?thesis
      using True by (simp add: addNoise_loop.simps [of rnd k i data] Let_def)
  next
    case False
    then show ?thesis using "1.prems" by (simp add: addNoise_loop.simps [of rnd k i data])
  qed
qed

lemma addNoise_loop_untouched:
  "16 dvd i \<Longrightarrow> j mod 16 \<notin> {0, 1, 2} \<Longrightarrow> addNoise_loop rnd k i data ! j = data ! j"
proof (induction rnd k i data rule: addNoise_loop.induct)
  case (1 rnd k i data)
  show ?case
  proof (cases "i < length data")
    case True
    let ?noise = "(rnd k - 0.5) * 8"
    let ?d = "set_channel (i + 2) ?noise (set_channel (i + 1) ?noise (set_channel i ?noise data))"
    have i0: "i mod 16 = 0" using "1.prems"(1) by simp
    have ne: "j \<noteq> i" "j \<noteq> i + 1" "j \<noteq> i + 2"
    proof -
      show "j \<noteq> i" using i0 "1.prems"(2) by auto
      have "(i + 1) mod 16 = 1" using i0 by presburger
      then show "j \<noteq> i + 1" using "1.prems"(2) by auto
      have "(i + 2) mod 16 = 2" using i0 by presburger
      then show "j \<noteq> i + 2" using "1.prems"(2) by auto
    qed
    have "16 dvd (i + 16)" using "1.prems"(1) by simp
    then have "addNoise_loop rnd (Suc k) (i + 16) ?d ! j = ?d ! j"
      using "1.prems"(2) by (rule "1.IH" [OF True refl])
    also have "?d ! j = data ! j"
      using ne by (simp add: nth_set_channel_other)
    finally show ?thesis
      using True by (simp add: addNoise_loop.simps [of rnd k i data] Let_def)
  next
    case False
    then show ?thesis by (simp add: addNoise_loop.simps [of rnd k i data])
  qed
qed

text \<open>A run of the overlay: with every \<open>Math.random()\<close> equal to \<open>0.9\<close> the noise is \<open>3.2\<close>,
  and a buffer of twenty zero channels gets \<open>3\<close> in the channels \<open>0, 1, 2\<close> and \<open>16, 17, 18\<close>.\<close>

lemma to_uint8_clamped_examples:
  "to_uint8_clamped (16 / 5) = 3"
  "to_uint8_clamped (5 / 2) = 2"
  "to_uint8_clamped (7 / 2) = 4"
  "to_uint8_clamped (- 4) = 0"
  "to_uint8_clamped 300 = 255"
  by (simp_all add: to_uint8_clamped_def Let_def)

lemma set_channel_on_zero:
  assumes "j < length data" and "data ! j = 0"
  shows "set_channel j (16 / 5) data = data[j := 3]"
proof -
  have "max 0 (min 255 (real_of_int 0 + 16 / 5)) = (16 / 5 :: real)" by simp
  then show ?thesis
    using assms by (simp only: set_channel_def if_True to_uint8_clamped_examples(1))
qed

lemma grain_sample_run:
  "addNoise (\<lambda>k. 9 / 10) (replicate 20 0) =
    [3, 3, 3, 0, 0, 0, 0, 0, 0, 0, 0, 0, 0, 0, 0, 0, 3, 3, 3, 0]"
proof -
  have n: "((9 / 10 :: real) - 0.5) * 8 = 16 / 5" by simp
  have r: "replicate 20 (0::int) = [0, 0, 0, 0, 0, 0, 0, 0, 0, 0, 0, 0, 0, 0, 0, 0, 0, 0, 0, 0]"
    by (simp add: numeral_eq_Suc)
  have s0: "set_channel 0 (16 / 5) [0, 0, 0, 0, 0, 0, 0, 0, 0, 0, 0, 0, 0, 0, 0, 0, 0, 0, 0, 0]
      = [3, 0, 0, 0, 0, 0, 0, 0, 0, 0, 0, 0, 0, 0, 0, 0, 0, 0, 0, 0]"
    by (subst set_channel_on_zero) simp_all
  have s1: "set_channel (Suc 0) (16 / 5) [3, 0, 0, 0, 0, 0, 0, 0, 0, 0, 0, 0, 0, 0, 0, 0, 0, 0, 0, 0]
      = [3, 3, 0, 0, 0, 0, 0, 0, 0, 0, 0, 0, 0, 0, 0, 0, 0, 0, 0, 0]"
    by (subst set_channel_on_zero) simp_all
  have s2: "set_channel (Suc (Suc 0)) (16 / 5) [3, 3, 0, 0, 0, 0, 0, 0, 0, 0, 0, 0, 0, 0, 0, 0, 0, 0, 0, 0]
      = [3, 3, 3, 0, 0, 0, 0, 0, 0, 0, 0, 0, 0, 0, 0, 0, 0, 0, 0, 0]"
    by (subst set_channel_on_zero) simp_all
  have s16: "set_channel 16 (16 / 5) [3, 3, 3, 0, 0, 0, 0, 0, 0, 0, 0, 0, 0, 0, 0, 0, 0, 0, 0, 0]
      = [3, 3, 3, 0, 0, 0, 0, 0, 0, 0, 0, 0, 0, 0, 0, 0, 3, 0, 0, 0]"
    by (subst set_channel_on_zero) (simp_all add: numeral_eq_Suc)
  have s17: "set_channel 17 (16 / 5) [3, 3, 3, 0, 0, 0, 0, 0, 0, 0, 0, 0, 0, 0, 0, 0, 3, 0, 0, 0]
      = [3, 3, 3, 0, 0, 0, 0, 0, 0, 0, 0, 0, 0, 0, 0, 0, 3, 3, 0, 0]"
    by (subst set_channel_on_zero) (simp_all add: numeral_eq_Suc)
  have s18: "set_channel 18 (16 / 5) [3, 3, 3, 0, 0, 0, 0, 0, 0, 0, 0, 0, 0, 0, 0, 0, 3, 3, 0, 0]
      = [3, 3, 3, 0, 0, 0, 0, 0, 0, 0, 0, 0, 0, 0, 0, 0, 3, 3, 3, 0]"
    by (subst set_channel_on_zero) (simp_all add: numeral_eq_Suc)
  have step0: "addNoise_loop (\<lambda>k. 9 / 10) 0 0 [0, 0, 0, 0, 0, 0, 0, 0, 0, 0, 0, 0, 0, 0, 0, 0, 0, 0, 0, 0]
      = addNoise_loop (\<lambda>k. 9 / 10) (Suc 0) 16 [3, 3, 3, 0, 0, 0, 0, 0, 0, 0, 0, 0, 0, 0, 0, 0, 0, 0, 0, 0]"
    by (subst addNoise_loop.simps) (simp add: Let_def s0 s1 s2)
  have step1: "addNoise_loop (\<lambda>k. 9 / 10) (Suc 0) 16 [3, 3, 3, 0, 0, 0, 0, 0, 0, 0, 0, 0, 0, 0, 0, 0, 0, 0, 0, 0]
      = addNoise_loop (\<lambda>k. 9 / 10) (Suc (Suc 0)) 32 [3, 3, 3, 0, 0, 0, 0, 0, 0, 0, 0, 0, 0, 0, 0, 0, 3, 3, 3, 0]"
    by (subst addNoise_loop.simps) (simp add: Let_def s16 s17 s18)
  have step2: "addNoise_loop (\<lambda>k. 9 / 10) (Suc (Suc 0)) 32 [3, 3, 3, 0, 0, 0, 0, 0, 0, 0, 0, 0, 0, 0, 0, 0, 3, 3, 3, 0]
      = [3, 3, 3, 0, 0, 0, 0, 0, 0, 0, 0, 0, 0, 0, 0, 0, 3, 3, 3, 0]"
    by (subst addNoise_loop.simps) simp
  show ?thesis
    unfolding addNoise_def r step0 step1 step2 ..
qed

text \<open>
  Claim C9. The grain overlay applied to an all-zero buffer of \<open>n\<close> channels returns \<open>n\<close>
  channels, each within \<open>[0, 255]\<close>, and every channel whose index is not of the form \<open>16j\<close>,
  \<open>16j + 1\<close> or \<open>16j + 2\<close> is still \<open>0\<close>, for every random supply.
\<close>

theorem grain_on_zero_buffer:
  "length (addNoise rnd (replicate n 0)) = n
   \<and> (j < n \<longrightarrow>
        0 \<le> addNoise rnd (replicate n 0) ! j \<and> addNoise rnd (replicate n 0) ! j \<le> 255
        \<and> (j mod 16 \<notin> {0, 1, 2} \<longrightarrow> addNoise rnd (replicate n 0) ! j = 0))"
proof -
  have len: "length (addNoise rnd (replicate n 0)) = n"
    by (simp add: addNoise_def addNoise_loop_length)
  have "\<forall>e \<in> set (replicate n (0::int)). 0 \<le> e \<and> e \<le> 255" by simp
  then have rng: "\<forall>e \<in> set (addNoise rnd (replicate n 0)). 0 \<le> e \<and> e \<le> 255"
    unfolding addNoise_def by (rule addNoise_loop_range)
  have inr: "0 \<le> addNoise rnd (replicate n 0) ! j \<and> addNoise rnd (replicate n 0) ! j \<le> 255"
    if "j < n"
    using rng len that nth_mem [of j "addNoise rnd (replicate n 0)"] by simp
  have unt: "addNoise rnd (replicate n 0) ! j = 0" if "j < n" "j mod 16 \<notin> {0, 1, 2}"
    using addNoise_loop_untouched [of 0 j rnd 0 "replicate n 0"] that
    by (simp add: addNoise_def)
  show ?thesis using len inr unt by blast
qed

theorem grain_on_zero_buffer_witness:
  "(3::nat) < 20 \<and> (3::nat) mod 16 \<notin> {0, 1, 2}
   \<and> length (addNoise sample_supply (replicate 20 0)) = 20
   \<and> addNoise sample_supply (replicate 20 0) ! 3 = 0
   \<and> 0 \<le> addNoise sample_supply (replicate 20 0) ! 3"
  using grain_on_zero_buffer [of sample_supply 20 3] by simp

end
